theory Spec2Isabelle
  imports Main "HOL-Library.Word"
begin

section \<open>Configuration constants and enumerations\<close>

text \<open>
  \<^verbatim>\<open>System_lights.h\<close>: the duty-cycle limits are the unsigned literals \<^verbatim>\<open>100u\<close> and
  \<^verbatim>\<open>20u\<close>; \<^verbatim>\<open>TCP_client.c\<close>: the queue length is \<^verbatim>\<open>10u\<close>.
\<close>

definition MAX_DUTY_CYCLE_PERC :: "32 word" where
  "MAX_DUTY_CYCLE_PERC = 100"

definition MIN_DUTY_CYCLE_PERC :: "32 word" where
  "MIN_DUTY_CYCLE_PERC = 20"

definition RX_QUEUE_LEN :: nat where
  "RX_QUEUE_LEN = 10"

datatype LED_ID = LED_0 | NUM_OF_LEDS

text \<open>
  \<^verbatim>\<open>Button_physical_connection.h\<close> lists \<^verbatim>\<open>BUTTON_0\<close> and closes the enumeration with
  \<^verbatim>\<open>NUM_OF_BUTTONS\<close>; \<^verbatim>\<open>Remote_switch.c\<close> also names \<^verbatim>\<open>BUTTON_1\<close> in its switch, so the
  enumeration is modelled with both buttons. \<^verbatim>\<open>NUM_OF_BUTTONS\<close> is a value of the type
  that no case label of the switch names.
\<close>

datatype Button_ID = BUTTON_0 | BUTTON_1 | NUM_OF_BUTTONS

datatype TCP_client_return =
    CORE_TCP_CLIENT_OK
  | CORE_TCP_CLIENT_INIT_ERR
  | CORE_TCP_CLIENT_INIT_QUEUE_ERR
  | CORE_TCP_CLIENT_INIT_SEMAPHORE_ERR
  | CORE_TCP_CLIENT_DE_INIT_ERR
  | CORE_TCP_CLIENT_MODULE_WAS_NOT_INIT_ERR
  | CORE_TCP_CLIENT_CANT_INSERT_IN_QUEUE_ERR
  | CORE_TCP_CLIENT_SEND_TIME_OUT_WARN
  | NUM_OF_TCP_CLIENT_RETURNS

text \<open>
  Modelled from the spec: \<^verbatim>\<open>Network_config.h\<close>, which declares \<^verbatim>\<open>TCP_COMMAND_TYPE\<close> and the
  action enumerators, is not among the sources. The spec gives the command as a record of
  an actuator identity, an action kind (toggle or set-level) and an unsigned level; the
  code assigns the fields \<^verbatim>\<open>ID\<close>, \<^verbatim>\<open>action\<close> and \<^verbatim>\<open>pwm\<close> and the enumerators \<^verbatim>\<open>TOOGLE_LED\<close>
  and \<^verbatim>\<open>SET_PWM\<close>. The C type of \<^verbatim>\<open>pwm\<close> is left open: the field has type \<open>'p\<close>, which
  the dispatch code instantiates with an unsigned word \<open>'w word\<close> of any width.
\<close>

datatype LED_action = TOOGLE_LED | SET_PWM

record 'p TCP_COMMAND_TYPE =
  ID :: LED_ID
  action :: LED_action
  pwm :: 'p

section \<open>The command built by the dispatch task\<close>

text \<open>
  The assignment \<^verbatim>\<open>cmd.pwm = ((num_of_presses%9)*10u) + MIN_DUTY_CYCLE_PERC\<close>: the
  right-hand side is computed in \<^verbatim>\<open>uint64_t\<close> (the type of \<^verbatim>\<open>num_of_presses\<close>) and then
  converted to the type of the field.
\<close>

definition duty_cycle_of_presses :: "64 word \<Rightarrow> 64 word" where
  "duty_cycle_of_presses num_of_presses =
     ((num_of_presses mod 9) * 10) + ucast MIN_DUTY_CYCLE_PERC"

text \<open>
  The switch statement of \<^verbatim>\<open>remote_switch_handler_func\<close>. \<open>cmd\<close> is the task's local
  command variable as the previous iteration left it (the variable is declared outside
  the loop without an initialiser, so on the first iteration it is any value at all);
  \<open>num_of_presses\<close> is what \<^verbatim>\<open>get_num_of_presses(BUTTON_1, &num_of_presses)\<close> has stored.
  The \<^verbatim>\<open>BUTTON_1\<close> case has no \<^verbatim>\<open>break\<close> and falls into \<^verbatim>\<open>default\<close>, which only breaks.
  The comparison \<^verbatim>\<open>cmd.pwm > MAX_DUTY_CYCLE_PERC\<close> is between unsigned values.
\<close>

definition switch_pressed_button ::
  "Button_ID \<Rightarrow> 64 word \<Rightarrow> ('w::len) word TCP_COMMAND_TYPE \<Rightarrow> 'w word TCP_COMMAND_TYPE" where
  "switch_pressed_button pressed_button num_of_presses cmd =
     (case pressed_button of
        BUTTON_0 \<Rightarrow> cmd\<lparr>ID := LED_0, action := TOOGLE_LED\<rparr>
      | BUTTON_1 \<Rightarrow>
          (let cmd1 = cmd\<lparr>ID := LED_0, action := SET_PWM\<rparr>;
               cmd2 = cmd1\<lparr>pwm := ucast (duty_cycle_of_presses num_of_presses)\<rparr>
           in if unat (pwm cmd2) > unat MAX_DUTY_CYCLE_PERC
              then cmd2\<lparr>pwm := ucast MIN_DUTY_CYCLE_PERC\<rparr>
              else cmd2)
      | _ \<Rightarrow> cmd)"

section \<open>FreeRTOS objects\<close>

text \<open>
  A counting semaphore is its maximum count and the number of tokens it holds. A blocking
  call is modelled at the instant its wait ends: \<open>xSemaphoreTake\<close> gives the semaphore with
  one token less, or \<open>None\<close> (\<^verbatim>\<open>pdFALSE\<close>) when the wait has elapsed and there is still no
  token; the number of ticks waited is not part of the model. \<open>xSemaphoreGive\<close> (and its
  interrupt variant) fails with \<open>None\<close> when the count is already at its maximum.
\<close>

record semaphore =
  uxMaxCount :: nat
  uxCount :: nat

definition xSemaphoreCreateCounting :: "nat \<Rightarrow> nat \<Rightarrow> semaphore" where
  "xSemaphoreCreateCounting max_count initial_count =
     \<lparr>uxMaxCount = max_count, uxCount = initial_count\<rparr>"

definition xSemaphoreTake :: "semaphore \<Rightarrow> semaphore option" where
  "xSemaphoreTake sem =
     (if 0 < uxCount sem then Some (sem\<lparr>uxCount := uxCount sem - 1\<rparr>) else None)"

definition xSemaphoreGive :: "semaphore \<Rightarrow> semaphore option" where
  "xSemaphoreGive sem =
     (if uxCount sem < uxMaxCount sem then Some (sem\<lparr>uxCount := Suc (uxCount sem)\<rparr>) else None)"

text \<open>
  A queue is its length (the number of slots) and the items waiting in it, oldest first.
  \<open>xQueueSend\<close> appends at the back, or fails with \<open>None\<close> when the wait has elapsed and
  every slot is still taken; \<open>xQueueReceive\<close> removes the front item, or fails with \<open>None\<close>
  when the wait has elapsed and the queue is still empty.
\<close>

record 'a queue =
  uxLength :: nat
  waiting :: "'a list"

definition xQueueCreate :: "nat \<Rightarrow> 'a queue" where
  "xQueueCreate queue_length = \<lparr>uxLength = queue_length, waiting = []\<rparr>"

definition xQueueSend :: "'a queue \<Rightarrow> 'a \<Rightarrow> 'a queue option" where
  "xQueueSend q item =
     (if length (waiting q) < uxLength q then Some (q\<lparr>waiting := waiting q @ [item]\<rparr>) else None)"

definition xQueueReceive :: "'a queue \<Rightarrow> ('a \<times> 'a queue) option" where
  "xQueueReceive q =
     (case waiting q of [] \<Rightarrow> None | item # rest \<Rightarrow> Some (item, q\<lparr>waiting := rest\<rparr>))"

section \<open>The TCP client module\<close>

text \<open>
  The five static variables of \<^verbatim>\<open>TCP_client.c\<close>, followed by what the module does to its
  surroundings: the handles of the tasks running \<^verbatim>\<open>cmd_TX_func\<close> that are alive, the number
  of tasks created so far (the next handle), the number of calls of \<^verbatim>\<open>esp_wifi_connect\<close>,
  and the command records that reached the gateway. A handle variable holds \<open>None\<close> for
  \<^verbatim>\<open>NULL\<close> and the object itself otherwise.
\<close>

record 'p TCP_client =
  send_cmd_task_handler :: "nat option"
  cmd_TX_queue :: "'p TCP_COMMAND_TYPE queue option"
  connection_state :: bool
  connection_state_sempahore :: "semaphore option"
  module_was_initialized :: bool
  cmd_TX_tasks :: "nat list"
  tasks_created :: nat
  wifi_connect_calls :: nat
  gateway_received :: "'p TCP_COMMAND_TYPE list"

text \<open>Static storage is zero-initialised: every handle is \<^verbatim>\<open>NULL\<close>, every flag false.\<close>

definition TCP_client_at_boot :: "'p TCP_client" where
  "TCP_client_at_boot =
     \<lparr>send_cmd_task_handler = None, cmd_TX_queue = None, connection_state = False,
      connection_state_sempahore = None, module_was_initialized = False,
      cmd_TX_tasks = [], tasks_created = 0, wifi_connect_calls = 0, gateway_received = []\<rparr>"

text \<open>
  \<open>xTaskCreate\<close> for \<^verbatim>\<open>cmd_TX_func\<close>: \<open>created\<close> says whether the kernel could allocate the
  task. On success the handle is written to \<^verbatim>\<open>send_cmd_task_handler\<close>; on failure the
  variable keeps its value. \<open>vTaskDelete\<close> ends the task with the given handle.
\<close>

definition xTaskCreate :: "bool \<Rightarrow> 'p TCP_client \<Rightarrow> bool \<times> 'p TCP_client" where
  "xTaskCreate created s =
     (if created
      then (True, s\<lparr>send_cmd_task_handler := Some (tasks_created s),
                     cmd_TX_tasks := tasks_created s # cmd_TX_tasks s,
                     tasks_created := Suc (tasks_created s)\<rparr>)
      else (False, s))"

definition vTaskDelete :: "nat \<Rightarrow> 'p TCP_client \<Rightarrow> 'p TCP_client" where
  "vTaskDelete handle s = s\<lparr>cmd_TX_tasks := removeAll handle (cmd_TX_tasks s)\<rparr>"

definition esp_wifi_connect :: "'p TCP_client \<Rightarrow> 'p TCP_client" where
  "esp_wifi_connect s = s\<lparr>wifi_connect_calls := Suc (wifi_connect_calls s)\<rparr>"

text \<open>
  The two accessors of the connection state. A call on a \<^verbatim>\<open>NULL\<close> semaphore handle does not
  return (the kernel asserts or faults): the result is \<open>None\<close>. Otherwise the result is the
  returned boolean and the new state.
\<close>

definition get_connection_state :: "'p TCP_client \<Rightarrow> (bool \<times> 'p TCP_client) option" where
  "get_connection_state s =
     (case connection_state_sempahore s of
        None \<Rightarrow> None
      | Some sem \<Rightarrow>
          (case xSemaphoreTake sem of
             Some taken \<Rightarrow>
               (let state = connection_state s
                in case xSemaphoreGive taken of
                     None \<Rightarrow> Some (state, s\<lparr>connection_state_sempahore := Some taken\<rparr>)
                   | Some given \<Rightarrow> Some (state, s\<lparr>connection_state_sempahore := Some given\<rparr>))
           | None \<Rightarrow> Some (False, s)))"

definition set_connection_state :: "bool \<Rightarrow> 'p TCP_client \<Rightarrow> (bool \<times> 'p TCP_client) option" where
  "set_connection_state state s =
     (case connection_state_sempahore s of
        None \<Rightarrow> None
      | Some sem \<Rightarrow>
          (case xSemaphoreTake sem of
             Some taken \<Rightarrow>
               (let s1 = s\<lparr>connection_state := state\<rparr>
                in case xSemaphoreGive taken of
                     None \<Rightarrow> Some (False, s1\<lparr>connection_state_sempahore := Some taken\<rparr>)
                   | Some given \<Rightarrow> Some (True, s1\<lparr>connection_state_sempahore := Some given\<rparr>))
           | None \<Rightarrow> Some (False, s)))"

text \<open>
  \<^verbatim>\<open>send_message\<close>. A send on a \<^verbatim>\<open>NULL\<close> queue handle does not return.
\<close>

definition send_message ::
  "'p TCP_COMMAND_TYPE \<Rightarrow> 'p TCP_client \<Rightarrow> (TCP_client_return \<times> 'p TCP_client) option" where
  "send_message command s =
     (if \<not> module_was_initialized s
      then Some (CORE_TCP_CLIENT_MODULE_WAS_NOT_INIT_ERR, s)
      else case get_connection_state s of
             None \<Rightarrow> None
           | Some (connected, s1) \<Rightarrow>
               if connected
               then (case cmd_TX_queue s1 of
                       None \<Rightarrow> None
                     | Some q \<Rightarrow>
                         (case xQueueSend q command of
                            None \<Rightarrow> Some (CORE_TCP_CLIENT_CANT_INSERT_IN_QUEUE_ERR, s1)
                          | Some q1 \<Rightarrow> Some (CORE_TCP_CLIENT_OK, s1\<lparr>cmd_TX_queue := Some q1\<rparr>)))
               else Some (CORE_TCP_CLIENT_SEND_TIME_OUT_WARN, s1))"

text \<open>
  \<^verbatim>\<open>de_init_TCP_client\<close>; \<open>de_init_WiFi_ok\<close> says whether \<^verbatim>\<open>de_init_WiFi\<close> returned
  \<^verbatim>\<open>CORE_WIFI_OK\<close>.
\<close>

definition de_init_TCP_client :: "bool \<Rightarrow> 'p TCP_client \<Rightarrow> TCP_client_return \<times> 'p TCP_client" where
  "de_init_TCP_client de_init_WiFi_ok s =
     (let s1 = s\<lparr>connection_state := False\<rparr>
      in if \<not> de_init_WiFi_ok then (CORE_TCP_CLIENT_DE_INIT_ERR, s1)
         else (CORE_TCP_CLIENT_OK, s1))"

text \<open>
  One pass of the loop of \<^verbatim>\<open>cmd_TX_func\<close>. The three booleans say whether \<^verbatim>\<open>socket\<close>,
  \<^verbatim>\<open>connect\<close> and \<^verbatim>\<open>write\<close> succeeded; the code logs a failure and goes on, so the record
  reaches the gateway when all three did. A pass whose receive times out changes nothing.
  The address of the gateway, which the task computes once before the loop, is not part
  of the model.
\<close>

definition cmd_TX_func_pass ::
  "bool \<Rightarrow> bool \<Rightarrow> bool \<Rightarrow> 'p TCP_client \<Rightarrow> 'p TCP_client option" where
  "cmd_TX_func_pass socket_ok connect_ok write_ok s =
     (case cmd_TX_queue s of
        None \<Rightarrow> None
      | Some q \<Rightarrow>
          (case xQueueReceive q of
             None \<Rightarrow> Some s
           | Some (command, q1) \<Rightarrow>
               Some (s\<lparr>cmd_TX_queue := Some q1,
                       gateway_received :=
                         (if socket_ok \<and> connect_ok \<and> write_ok
                          then gateway_received s @ [command]
                          else gateway_received s)\<rparr>)))"

subsection \<open>Event handlers\<close>

datatype wifi_event_t = WIFI_EVENT_STA_START | WIFI_EVENT_STA_DISCONNECTED | WIFI_EVENT_OTHER

datatype ip_event_t = IP_EVENT_STA_GOT_IP | IP_EVENT_OTHER

definition WiFi_event_handler :: "wifi_event_t \<Rightarrow> 'p TCP_client \<Rightarrow> 'p TCP_client option" where
  "WiFi_event_handler event_id s =
     (case event_id of
        WIFI_EVENT_STA_START \<Rightarrow> Some (esp_wifi_connect s)
      | WIFI_EVENT_STA_DISCONNECTED \<Rightarrow>
          (case set_connection_state False s of
             None \<Rightarrow> None
           | Some (_, s1) \<Rightarrow>
               (let s2 = (case send_cmd_task_handler s1 of
                            None \<Rightarrow> s1
                          | Some handle \<Rightarrow> vTaskDelete handle s1)
                in Some (esp_wifi_connect s2)))
      | WIFI_EVENT_OTHER \<Rightarrow> Some s)"

text \<open>\<open>task_created\<close> is the outcome of the \<open>xTaskCreate\<close> call; its failure is not handled.\<close>

definition IP_event_handler :: "bool \<Rightarrow> ip_event_t \<Rightarrow> 'p TCP_client \<Rightarrow> 'p TCP_client option" where
  "IP_event_handler task_created event_id s =
     (case event_id of
        IP_EVENT_STA_GOT_IP \<Rightarrow>
          (case set_connection_state True s of
             None \<Rightarrow> None
           | Some (_, s1) \<Rightarrow> Some (snd (xTaskCreate task_created s1)))
      | IP_EVENT_OTHER \<Rightarrow> Some s)"

datatype event = WiFi_event wifi_event_t | IP_event bool ip_event_t

fun handle_event :: "event \<Rightarrow> 'p TCP_client \<Rightarrow> 'p TCP_client option" where
  "handle_event (WiFi_event event_id) s = WiFi_event_handler event_id s"
| "handle_event (IP_event task_created event_id) s = IP_event_handler task_created event_id s"

fun handle_events :: "event list \<Rightarrow> 'p TCP_client \<Rightarrow> 'p TCP_client option" where
  "handle_events [] s = Some s"
| "handle_events (e # es) s =
     (case handle_event e s of None \<Rightarrow> None | Some s1 \<Rightarrow> handle_events es s1)"

subsection \<open>Initialisation\<close>

text \<open>
  The polling loop at the end of \<^verbatim>\<open>init_TCP_client\<close>. The events that the event loop
  handles during each \<^verbatim>\<open>vTaskDelay\<close> are given as a list, one entry per delay. The loop
  leaves as soon as a read of the connection state gives true; when the list ends with
  the state still false the loop is still waiting, and the result is \<open>None\<close>.
\<close>

fun wait_for_connection :: "event list list \<Rightarrow> 'p TCP_client \<Rightarrow> 'p TCP_client option" where
  "wait_for_connection [] s =
     (case get_connection_state s of
        None \<Rightarrow> None
      | Some (connected, s1) \<Rightarrow> if connected then Some s1 else None)"
| "wait_for_connection (during_delay # later) s =
     (case get_connection_state s of
        None \<Rightarrow> None
      | Some (connected, s1) \<Rightarrow>
          if connected then Some s1
          else (case handle_events during_delay s1 of
                  None \<Rightarrow> None
                | Some s2 \<Rightarrow> wait_for_connection later s2))"

text \<open>
  \<^verbatim>\<open>init_TCP_client\<close>. \<open>queue_created\<close> and \<open>semaphore_created\<close> say whether the kernel
  could allocate the objects, \<open>WiFi_init_ok\<close> whether \<^verbatim>\<open>WiFi_init\<close> returned \<^verbatim>\<open>CORE_WIFI_OK\<close>.
\<close>

definition init_TCP_client ::
  "bool \<Rightarrow> bool \<Rightarrow> bool \<Rightarrow> event list list \<Rightarrow> 'p TCP_client
     \<Rightarrow> (TCP_client_return \<times> 'p TCP_client) option" where
  "init_TCP_client queue_created semaphore_created WiFi_init_ok events s =
     (let s1 = s\<lparr>send_cmd_task_handler := None\<rparr>;
          s2 = s1\<lparr>cmd_TX_queue := (if queue_created then Some (xQueueCreate RX_QUEUE_LEN) else None)\<rparr>
      in if cmd_TX_queue s2 = None then Some (CORE_TCP_CLIENT_INIT_QUEUE_ERR, s2)
         else
           (let s3 = s2\<lparr>connection_state_sempahore :=
                          (if semaphore_created then Some (xSemaphoreCreateCounting 1 1) else None)\<rparr>
            in if connection_state_sempahore s3 = None
               then Some (CORE_TCP_CLIENT_INIT_SEMAPHORE_ERR, s3)
               else if \<not> WiFi_init_ok then Some (CORE_TCP_CLIENT_INIT_ERR, s3)
               else (case wait_for_connection events s3 of
                       None \<Rightarrow> None
                     | Some s4 \<Rightarrow> Some (CORE_TCP_CLIENT_OK, s4\<lparr>module_was_initialized := True\<rparr>))))"

subsection \<open>Histories of the module\<close>

text \<open>
  Everything that can happen to the module: a call of one of its three public functions,
  an event delivered to a handler, a pass of the sending task.
\<close>

datatype 'p TCP_client_action =
    Init bool bool bool "event list list"
  | De_init bool
  | Send "'p TCP_COMMAND_TYPE"
  | Deliver event
  | TX_pass bool bool bool

fun TCP_client_step :: "'p TCP_client_action \<Rightarrow> 'p TCP_client \<Rightarrow> 'p TCP_client option" where
  "TCP_client_step (Init queue_created semaphore_created WiFi_init_ok events) s =
     map_option snd (init_TCP_client queue_created semaphore_created WiFi_init_ok events s)"
| "TCP_client_step (De_init de_init_WiFi_ok) s = Some (snd (de_init_TCP_client de_init_WiFi_ok s))"
| "TCP_client_step (Send command) s = map_option snd (send_message command s)"
| "TCP_client_step (Deliver e) s = handle_event e s"
| "TCP_client_step (TX_pass socket_ok connect_ok write_ok) s =
     cmd_TX_func_pass socket_ok connect_ok write_ok s"

fun TCP_client_run :: "'p TCP_client_action list \<Rightarrow> 'p TCP_client \<Rightarrow> 'p TCP_client option" where
  "TCP_client_run [] s = Some s"
| "TCP_client_run (a # later) s =
     (case TCP_client_step a s of None \<Rightarrow> None | Some s1 \<Rightarrow> TCP_client_run later s1)"

section \<open>The remote switch module\<close>

text \<open>
  The static \<^verbatim>\<open>pressed_button\<close>, the semaphore \<^verbatim>\<open>remote_switches_infos[BUTTON_0].semaphore\<close>
  that both the callback and the task use, and the local variable \<^verbatim>\<open>cmd\<close> of the task.
\<close>

record 'p remote_switch =
  pressed_button :: Button_ID
  button_0_semaphore :: semaphore
  handler_cmd :: "'p TCP_COMMAND_TYPE"

definition button_CB :: "Button_ID \<Rightarrow> 'p remote_switch \<Rightarrow> 'p remote_switch" where
  "button_CB button rs =
     (let rs1 = rs\<lparr>pressed_button := button\<rparr>
      in case xSemaphoreGive (button_0_semaphore rs1) of
           None \<Rightarrow> rs1
         | Some given \<Rightarrow> rs1\<lparr>button_0_semaphore := given\<rparr>)"

text \<open>
  One pass of the loop of \<^verbatim>\<open>remote_switch_handler_func\<close>. The first component of the result
  is the value handed to \<^verbatim>\<open>core_TCP_client_LOG\<close>, that is what \<^verbatim>\<open>send_message\<close> returned; it
  is \<open>None\<close> when the semaphore was not taken and \<^verbatim>\<open>send_message\<close> was not called.
\<close>

definition remote_switch_handler_pass ::
  "64 word \<Rightarrow> ('w::len) word remote_switch \<Rightarrow> 'w word TCP_client
     \<Rightarrow> (TCP_client_return option \<times> 'w word remote_switch \<times> 'w word TCP_client) option" where
  "remote_switch_handler_pass num_of_presses rs tcp =
     (case xSemaphoreTake (button_0_semaphore rs) of
        None \<Rightarrow> Some (None, rs, tcp)
      | Some taken \<Rightarrow>
          (let command = switch_pressed_button (pressed_button rs) num_of_presses (handler_cmd rs);
               rs1 = rs\<lparr>button_0_semaphore := taken, handler_cmd := command\<rparr>
           in case send_message command tcp of
                None \<Rightarrow> None
              | Some (ret, tcp1) \<Rightarrow> Some (Some ret, rs1, tcp1)))"

section \<open>Arithmetic of the duty cycle\<close>

lemma unat_duty_cycle_of_presses:
  "unat (duty_cycle_of_presses n) = (unat n mod 9) * 10 + 20"
proof -
  have m: "unat (n mod 9) = unat n mod 9"
    by (simp add: unat_mod)
  have b: "unat n mod 9 < 9"
    by simp
  have "unat ((n mod 9) * 10) = unat (n mod 9) * unat (10 :: 64 word)"
    using b m by (intro iffD1 [OF unat_mult_lem]) simp
  then have t: "unat ((n mod 9) * 10) = (unat n mod 9) * 10"
    using m by simp
  have "unat ((n mod 9) * 10 + 20) = unat ((n mod 9) * 10) + unat (20 :: 64 word)"
    using b t by (intro iffD1 [OF unat_add_lem]) simp
  then show ?thesis
    using t by (simp add: duty_cycle_of_presses_def MIN_DUTY_CYCLE_PERC_def)
qed

lemma duty_cycle_of_presses_le: "unat (duty_cycle_of_presses n) \<le> 100"
proof -
  have "unat n mod 9 \<le> 8"
    by (simp add: less_Suc_eq_le [symmetric])
  then show ?thesis
    by (simp add: unat_duty_cycle_of_presses)
qed

lemma unat_ucast_duty_cycle:
  assumes "7 \<le> LENGTH('w::len)"
  shows "unat (ucast (duty_cycle_of_presses n) :: 'w word) = (unat n mod 9) * 10 + 20"
proof -
  have "(2::nat) ^ 7 \<le> 2 ^ LENGTH('w)"
    using assms by (intro power_increasing) simp_all
  then have "unat (duty_cycle_of_presses n) < 2 ^ LENGTH('w)"
    using duty_cycle_of_presses_le [of n] by simp
  then have "unat (ucast (duty_cycle_of_presses n) :: 'w word) = unat (duty_cycle_of_presses n)"
    by (simp add: unsigned_ucast_eq take_bit_nat_eq_self)
  then show ?thesis
    by (simp add: unat_duty_cycle_of_presses)
qed

lemma unat_ucast_le:
  "unat (ucast (x :: 'a::len word) :: 'b::len word) \<le> unat x"
  by (simp add: unsigned_ucast_eq take_bit_eq_mod)

lemma switch_BUTTON_1_pwm:
  "pwm (switch_pressed_button BUTTON_1 n c) = ucast (duty_cycle_of_presses n)"
proof -
  have "unat (ucast (duty_cycle_of_presses n) :: 'a word) \<le> 100"
    using unat_ucast_le [of "duty_cycle_of_presses n"] duty_cycle_of_presses_le [of n]
    by (rule order_trans)
  then show ?thesis
    by (simp add: switch_pressed_button_def Let_def MAX_DUTY_CYCLE_PERC_def)
qed

section \<open>The level-cycling command\<close>

text \<open>
  C1. When the pressed button is \<^verbatim>\<open>BUTTON_1\<close> and \<^verbatim>\<open>get_num_of_presses\<close> has stored \<open>n\<close>, the
  command that is built addresses \<^verbatim>\<open>LED_0\<close> with the action \<^verbatim>\<open>SET_PWM\<close>, and its level is
  \<open>((n mod 9) * 10) + MIN_DUTY_CYCLE_PERC\<close>, replaced by \<open>MIN_DUTY_CYCLE_PERC\<close> when that
  exceeds \<open>MAX_DUTY_CYCLE_PERC\<close>; the presses 1 to 9 give the levels 30, 40, 50, 60, 70, 80,
  90, 100, 20. The level field may have any unsigned type of at least seven bits.
\<close>

theorem level_cycling_command:
  fixes c :: "('w::len) word TCP_COMMAND_TYPE"
  assumes "7 \<le> LENGTH('w)"
  shows "ID (switch_pressed_button BUTTON_1 n c) = LED_0
       \<and> action (switch_pressed_button BUTTON_1 n c) = SET_PWM
       \<and> unat (pwm (switch_pressed_button BUTTON_1 n c)) =
           (if (unat n mod 9) * 10 + unat MIN_DUTY_CYCLE_PERC > unat MAX_DUTY_CYCLE_PERC
            then unat MIN_DUTY_CYCLE_PERC
            else (unat n mod 9) * 10 + unat MIN_DUTY_CYCLE_PERC)
       \<and> map (\<lambda>k. unat (pwm (switch_pressed_button BUTTON_1 k c))) [1, 2, 3, 4, 5, 6, 7, 8, 9]
           = [30, 40, 50, 60, 70, 80, 90, 100, 20]"
proof -
  have f: "ID (switch_pressed_button BUTTON_1 n c) = LED_0
       \<and> action (switch_pressed_button BUTTON_1 n c) = SET_PWM"
    by (simp add: switch_pressed_button_def Let_def)
  have p: "unat (pwm (switch_pressed_button BUTTON_1 k c)) = (unat k mod 9) * 10 + 20" for k
    using assms by (simp add: switch_BUTTON_1_pwm unat_ucast_duty_cycle)
  have "unat n mod 9 \<le> 8"
    by (simp add: less_Suc_eq_le [symmetric])
  then have g: "\<not> (unat n mod 9) * 10 + unat MIN_DUTY_CYCLE_PERC > unat MAX_DUTY_CYCLE_PERC"
    by (simp add: MIN_DUTY_CYCLE_PERC_def MAX_DUTY_CYCLE_PERC_def)
  show ?thesis
    using f g by (simp add: p MIN_DUTY_CYCLE_PERC_def)
qed

theorem level_cycling_command_witness:
  "7 \<le> LENGTH(8)
   \<and> unat (pwm (switch_pressed_button BUTTON_1 13
        \<lparr>ID = NUM_OF_LEDS, action = TOOGLE_LED, pwm = 0 :: 8 word\<rparr>)) = 60
   \<and> map (\<lambda>k. unat (pwm (switch_pressed_button BUTTON_1 k
        \<lparr>ID = NUM_OF_LEDS, action = TOOGLE_LED, pwm = 0 :: 8 word\<rparr>)))
        [1, 2, 3, 4, 5, 6, 7, 8, 9] = [30, 40, 50, 60, 70, 80, 90, 100, 20]"
  using level_cycling_command
    [where 'w = 8 and n = 13 and c = "\<lparr>ID = NUM_OF_LEDS, action = TOOGLE_LED, pwm = 0\<rparr>"]
  by (simp add: MIN_DUTY_CYCLE_PERC_def MAX_DUTY_CYCLE_PERC_def)

text \<open>
  C8. The branch that resets the level is never taken: for every 64-bit press count the
  value \<open>((n mod 9) * 10) + 20\<close> is at most \<open>MAX_DUTY_CYCLE_PERC\<close>, so whatever the width of
  the level field the guard \<^verbatim>\<open>cmd.pwm > MAX_DUTY_CYCLE_PERC\<close> is false and the field keeps the
  computed value, which is one of 20, 30, 40, 50, 60, 70, 80, 90, 100 (in the field itself
  when it has at least seven bits).
\<close>

theorem level_wrap_unreachable:
  fixes c :: "('w::len) word TCP_COMMAND_TYPE"
  shows "unat (duty_cycle_of_presses n) \<le> unat MAX_DUTY_CYCLE_PERC
       \<and> \<not> unat (ucast (duty_cycle_of_presses n) :: 'w word) > unat MAX_DUTY_CYCLE_PERC
       \<and> pwm (switch_pressed_button BUTTON_1 n c) = ucast (duty_cycle_of_presses n)
       \<and> unat (duty_cycle_of_presses n) \<in> {20, 30, 40, 50, 60, 70, 80, 90, 100}
       \<and> (7 \<le> LENGTH('w) \<longrightarrow>
            unat (pwm (switch_pressed_button BUTTON_1 n c)) \<in> {20, 30, 40, 50, 60, 70, 80, 90, 100})"
proof -
  have a: "unat (duty_cycle_of_presses n) \<le> unat MAX_DUTY_CYCLE_PERC"
    using duty_cycle_of_presses_le [of n] by (simp add: MAX_DUTY_CYCLE_PERC_def)
  have "unat (ucast (duty_cycle_of_presses n) :: 'w word) \<le> unat (duty_cycle_of_presses n)"
    by (rule unat_ucast_le)
  with a have b: "\<not> unat (ucast (duty_cycle_of_presses n) :: 'w word) > unat MAX_DUTY_CYCLE_PERC"
    by simp
  have "unat n mod 9 < 9"
    by simp
  then have "unat n mod 9 = 0 \<or> unat n mod 9 = 1 \<or> unat n mod 9 = 2 \<or> unat n mod 9 = 3
      \<or> unat n mod 9 = 4 \<or> unat n mod 9 = 5 \<or> unat n mod 9 = 6 \<or> unat n mod 9 = 7
      \<or> unat n mod 9 = 8"
    by arith
  then have v: "(unat n mod 9) * 10 + 20 \<in> {20, 30, 40, 50, 60, 70, 80, 90, 100}"
    by auto
  then have d: "unat (duty_cycle_of_presses n) \<in> {20, 30, 40, 50, 60, 70, 80, 90, 100}"
    by (simp only: unat_duty_cycle_of_presses)
  have e: "7 \<le> LENGTH('w) \<longrightarrow>
            unat (pwm (switch_pressed_button BUTTON_1 n c)) \<in> {20, 30, 40, 50, 60, 70, 80, 90, 100}"
  proof
    assume w: "7 \<le> LENGTH('w)"
    have "unat (pwm (switch_pressed_button BUTTON_1 n c)) = (unat n mod 9) * 10 + 20"
      by (simp add: switch_BUTTON_1_pwm unat_ucast_duty_cycle [OF w])
    with v show "unat (pwm (switch_pressed_button BUTTON_1 n c))
        \<in> {20, 30, 40, 50, 60, 70, 80, 90, 100}"
      by (simp only:)
  qed
  show ?thesis
    using a b d e switch_BUTTON_1_pwm [of n c] by blast
qed

theorem level_wrap_unreachable_witness:
  "7 \<le> LENGTH(8)
   \<and> \<not> unat (ucast (duty_cycle_of_presses 8) :: 8 word) > unat MAX_DUTY_CYCLE_PERC
   \<and> unat (pwm (switch_pressed_button BUTTON_1 8
        \<lparr>ID = NUM_OF_LEDS, action = TOOGLE_LED, pwm = 0 :: 8 word\<rparr>)) = 100"
  using level_wrap_unreachable
    [where 'w = 8 and n = 8 and c = "\<lparr>ID = NUM_OF_LEDS, action = TOOGLE_LED, pwm = 0\<rparr>"]
  by (simp add: MIN_DUTY_CYCLE_PERC_def MAX_DUTY_CYCLE_PERC_def switch_pressed_button_def
      duty_cycle_of_presses_def)

section \<open>The connection state guard\<close>

lemma take_give_restores:
  assumes "xSemaphoreTake sem = Some taken" and "uxCount sem \<le> uxMaxCount sem"
  shows "xSemaphoreGive taken = Some sem"
  using assms by (auto simp: xSemaphoreTake_def xSemaphoreGive_def split: if_splits)

lemma get_connection_state_frame:
  assumes "get_connection_state s = Some (b, s1)"
  shows "s1 = s\<lparr>connection_state_sempahore := connection_state_sempahore s1\<rparr>"
  using assms
  by (auto simp: get_connection_state_def Let_def split: option.splits)

lemma set_connection_state_frame:
  assumes "set_connection_state st s = Some (b, s1)"
  shows "s1 = s\<lparr>connection_state := connection_state s1,
                 connection_state_sempahore := connection_state_sempahore s1\<rparr>"
  using assms
  by (auto simp: set_connection_state_def Let_def split: option.splits)

lemma get_connection_state_queue:
  assumes "get_connection_state s = Some (b, s1)"
  shows "cmd_TX_queue s1 = cmd_TX_queue s"
  using assms by (auto simp: get_connection_state_def Let_def split: option.splits)

text \<open>
  C7. With a semaphore that holds no more tokens than its maximum: when the token cannot
  be taken before the wait ends, \<open>get_connection_state\<close> returns false whatever the stored
  boolean is, and \<open>set_connection_state\<close> returns false and changes nothing; when the
  token is taken, \<open>get_connection_state\<close> returns the stored boolean and
  \<open>set_connection_state\<close> stores the given value and returns true, both leaving the
  semaphore as they found it.
\<close>

theorem connection_state_accessors_fail_safe:
  assumes "connection_state_sempahore s = Some sem" and "uxCount sem \<le> uxMaxCount sem"
  shows "(xSemaphoreTake sem = None \<longrightarrow>
            get_connection_state s = Some (False, s)
          \<and> set_connection_state b s = Some (False, s))
       \<and> (xSemaphoreTake sem \<noteq> None \<longrightarrow>
            get_connection_state s = Some (connection_state s, s)
          \<and> set_connection_state b s = Some (True, s\<lparr>connection_state := b\<rparr>))"
proof (cases "xSemaphoreTake sem")
  case None
  then show ?thesis
    using assms(1) by (simp add: get_connection_state_def set_connection_state_def)
next
  case (Some taken)
  then have "xSemaphoreGive taken = Some sem"
    using assms(2) by (rule take_give_restores)
  with Some show ?thesis
    using assms(1) by (simp add: get_connection_state_def set_connection_state_def)
qed


theorem connection_state_accessors_fail_safe_witness:
  "get_connection_state
     (TCP_client_at_boot\<lparr>connection_state := True,
        connection_state_sempahore := Some \<lparr>uxMaxCount = 1, uxCount = 0\<rparr>\<rparr> :: unit TCP_client)
     = Some (False, TCP_client_at_boot\<lparr>connection_state := True,
        connection_state_sempahore := Some \<lparr>uxMaxCount = 1, uxCount = 0\<rparr>\<rparr>)
   \<and> set_connection_state False
     (TCP_client_at_boot\<lparr>connection_state := True,
        connection_state_sempahore := Some \<lparr>uxMaxCount = 1, uxCount = 0\<rparr>\<rparr> :: unit TCP_client)
     = Some (False, TCP_client_at_boot\<lparr>connection_state := True,
        connection_state_sempahore := Some \<lparr>uxMaxCount = 1, uxCount = 0\<rparr>\<rparr>)
   \<and> get_connection_state
     (TCP_client_at_boot\<lparr>connection_state := True,
        connection_state_sempahore := Some \<lparr>uxMaxCount = 1, uxCount = 1\<rparr>\<rparr> :: unit TCP_client)
     = Some (True, TCP_client_at_boot\<lparr>connection_state := True,
        connection_state_sempahore := Some \<lparr>uxMaxCount = 1, uxCount = 1\<rparr>\<rparr>)
   \<and> set_connection_state False
     (TCP_client_at_boot\<lparr>connection_state := True,
        connection_state_sempahore := Some \<lparr>uxMaxCount = 1, uxCount = 1\<rparr>\<rparr> :: unit TCP_client)
     = Some (True, TCP_client_at_boot\<lparr>connection_state := False,
        connection_state_sempahore := Some \<lparr>uxMaxCount = 1, uxCount = 1\<rparr>\<rparr>)"
  using
    connection_state_accessors_fail_safe
      [of "TCP_client_at_boot\<lparr>connection_state := True,
             connection_state_sempahore := Some \<lparr>uxMaxCount = 1, uxCount = 0\<rparr>\<rparr> :: unit TCP_client"
          "\<lparr>uxMaxCount = 1, uxCount = 0\<rparr>" False]
    connection_state_accessors_fail_safe
      [of "TCP_client_at_boot\<lparr>connection_state := True,
             connection_state_sempahore := Some \<lparr>uxMaxCount = 1, uxCount = 1\<rparr>\<rparr> :: unit TCP_client"
          "\<lparr>uxMaxCount = 1, uxCount = 1\<rparr>" False]
  by (simp add: TCP_client_at_boot_def xSemaphoreTake_def)

section \<open>Sending a command\<close>

text \<open>
  C2. \<open>send_message\<close> returns \<^verbatim>\<open>CORE_TCP_CLIENT_MODULE_WAS_NOT_INIT_ERR\<close> when the module was
  not initialised, leaving the whole state as it was, and returns
  \<^verbatim>\<open>CORE_TCP_CLIENT_SEND_TIME_OUT_WARN\<close> when the module was initialised and the read of the
  connection state gives false; in both cases the command queue is unchanged.
\<close>

theorem send_message_refused:
  "(\<not> module_was_initialized s \<longrightarrow>
      send_message c s = Some (CORE_TCP_CLIENT_MODULE_WAS_NOT_INIT_ERR, s))
   \<and> (module_was_initialized s \<and> get_connection_state s = Some (False, t) \<longrightarrow>
      send_message c s = Some (CORE_TCP_CLIENT_SEND_TIME_OUT_WARN, t)
      \<and> cmd_TX_queue t = cmd_TX_queue s)"
  by (auto simp: send_message_def dest: get_connection_state_queue)


theorem send_message_refused_witness:
  "send_message \<lparr>ID = LED_0, action = TOOGLE_LED, pwm = ()\<rparr> TCP_client_at_boot
     = Some (CORE_TCP_CLIENT_MODULE_WAS_NOT_INIT_ERR, TCP_client_at_boot)
   \<and> send_message \<lparr>ID = LED_0, action = TOOGLE_LED, pwm = ()\<rparr>
       (TCP_client_at_boot\<lparr>cmd_TX_queue := Some (xQueueCreate RX_QUEUE_LEN),
          connection_state_sempahore := Some (xSemaphoreCreateCounting 1 1),
          module_was_initialized := True\<rparr>)
     = Some (CORE_TCP_CLIENT_SEND_TIME_OUT_WARN,
         TCP_client_at_boot\<lparr>cmd_TX_queue := Some (xQueueCreate RX_QUEUE_LEN),
          connection_state_sempahore := Some (xSemaphoreCreateCounting 1 1),
          module_was_initialized := True\<rparr>)"
  using
    send_message_refused
      [where s = TCP_client_at_boot and c = "\<lparr>ID = LED_0, action = TOOGLE_LED, pwm = ()\<rparr>"]
    send_message_refused
      [where s = "TCP_client_at_boot\<lparr>cmd_TX_queue := Some (xQueueCreate RX_QUEUE_LEN),
             connection_state_sempahore := Some (xSemaphoreCreateCounting 1 1),
             module_was_initialized := True\<rparr>"
         and t = "TCP_client_at_boot\<lparr>cmd_TX_queue := Some (xQueueCreate RX_QUEUE_LEN),
             connection_state_sempahore := Some (xSemaphoreCreateCounting 1 1),
             module_was_initialized := True\<rparr>"
         and c = "\<lparr>ID = LED_0, action = TOOGLE_LED, pwm = ()\<rparr>"]
  by (simp add: TCP_client_at_boot_def get_connection_state_def xSemaphoreTake_def
      xSemaphoreGive_def xSemaphoreCreateCounting_def)

text \<open>
  C3. Not every write of the connection state takes the semaphore: with the token held
  elsewhere (a count of 0) \<open>set_connection_state\<close> gives up and leaves the stored true in
  place, while \<open>de_init_TCP_client\<close> in the same state overwrites it with false, without
  touching the semaphore.
\<close>

theorem de_init_bypasses_semaphore:
  "set_connection_state False
     (TCP_client_at_boot\<lparr>connection_state := True,
        connection_state_sempahore := Some \<lparr>uxMaxCount = 1, uxCount = 0\<rparr>\<rparr> :: unit TCP_client)
     = Some (False, TCP_client_at_boot\<lparr>connection_state := True,
        connection_state_sempahore := Some \<lparr>uxMaxCount = 1, uxCount = 0\<rparr>\<rparr>)
   \<and> de_init_TCP_client True
     (TCP_client_at_boot\<lparr>connection_state := True,
        connection_state_sempahore := Some \<lparr>uxMaxCount = 1, uxCount = 0\<rparr>\<rparr> :: unit TCP_client)
     = (CORE_TCP_CLIENT_OK, TCP_client_at_boot\<lparr>connection_state := False,
        connection_state_sempahore := Some \<lparr>uxMaxCount = 1, uxCount = 0\<rparr>\<rparr>)"
  by (simp add: TCP_client_at_boot_def set_connection_state_def de_init_TCP_client_def
      xSemaphoreTake_def)

section \<open>What every history of the module preserves\<close>

lemmas TCP_client_defs =
  TCP_client_at_boot_def init_TCP_client_def get_connection_state_def set_connection_state_def
  send_message_def de_init_TCP_client_def cmd_TX_func_pass_def WiFi_event_handler_def
  IP_event_handler_def xTaskCreate_def vTaskDelete_def esp_wifi_connect_def
  xSemaphoreTake_def xSemaphoreGive_def xSemaphoreCreateCounting_def
  xQueueCreate_def xQueueSend_def xQueueReceive_def RX_QUEUE_LEN_def

lemma get_connection_state_flag:
  "get_connection_state s = Some (b, t) \<Longrightarrow> module_was_initialized t = module_was_initialized s"
  by (auto simp: get_connection_state_def Let_def split: option.splits)

lemma set_connection_state_keeps:
  "set_connection_state st s = Some (b, t) \<Longrightarrow>
     module_was_initialized t = module_was_initialized s \<and> cmd_TX_queue t = cmd_TX_queue s"
  by (auto simp: set_connection_state_def Let_def split: option.splits)

lemma handle_event_keeps:
  "handle_event e s = Some t \<Longrightarrow>
     module_was_initialized t = module_was_initialized s \<and> cmd_TX_queue t = cmd_TX_queue s"
  by (cases e)
    (auto simp: WiFi_event_handler_def IP_event_handler_def xTaskCreate_def vTaskDelete_def
       esp_wifi_connect_def Let_def
       split: wifi_event_t.splits ip_event_t.splits option.splits if_splits
       dest: set_connection_state_keeps)

lemma handle_events_keeps:
  "handle_events es s = Some t \<Longrightarrow>
     module_was_initialized t = module_was_initialized s \<and> cmd_TX_queue t = cmd_TX_queue s"
proof (induction es arbitrary: s)
  case Nil
  then show ?case by simp
next
  case (Cons e es)
  then obtain u where u: "handle_event e s = Some u" and r: "handle_events es u = Some t"
    by (auto split: option.splits)
  show ?case
    using handle_event_keeps [OF u] Cons.IH [OF r] by simp
qed

lemma wait_for_connection_keeps:
  "wait_for_connection evs s = Some t \<Longrightarrow>
     module_was_initialized t = module_was_initialized s \<and> cmd_TX_queue t = cmd_TX_queue s"
proof (induction evs arbitrary: s)
  case Nil
  then show ?case
    by (auto split: option.splits if_splits
        dest: get_connection_state_flag get_connection_state_queue)
next
  case (Cons during later)
  from Cons.prems obtain b u where g: "get_connection_state s = Some (b, u)"
    by (auto split: option.splits)
  note k = get_connection_state_flag [OF g] get_connection_state_queue [OF g]
  show ?case
  proof (cases b)
    case True
    with Cons.prems g have "t = u" by simp
    with k show ?thesis by simp
  next
    case False
    with Cons.prems g obtain v where h: "handle_events during u = Some v"
      and w: "wait_for_connection later v = Some t"
      by (auto split: option.splits)
    show ?thesis
      using k handle_events_keeps [OF h] Cons.IH [OF w] by simp
  qed
qed

lemma init_TCP_client_flag:
  assumes "init_TCP_client qc sc wo evs s = Some (r, t)"
  shows "(module_was_initialized s \<longrightarrow> module_was_initialized t)
       \<and> (r = CORE_TCP_CLIENT_OK \<longrightarrow> module_was_initialized t)"
  using assms
  by (auto simp: init_TCP_client_def Let_def split: if_splits option.splits
      dest: wait_for_connection_keeps)

lemma init_TCP_client_queue:
  assumes "init_TCP_client qc sc wo evs s = Some (r, t)" and "cmd_TX_queue t = Some q"
  shows "q = xQueueCreate RX_QUEUE_LEN"
  using assms
  by (auto simp: init_TCP_client_def Let_def split: if_splits option.splits
      dest!: wait_for_connection_keeps)

lemma send_message_flag:
  "send_message c s = Some (r, t) \<Longrightarrow> module_was_initialized t = module_was_initialized s"
  by (auto simp: send_message_def split: if_splits option.splits prod.splits
      dest: get_connection_state_flag)

lemma send_message_queue:
  assumes "send_message c s = Some (r, t)" and "cmd_TX_queue t = Some q"
    and "\<forall>p. cmd_TX_queue s = Some p \<longrightarrow> uxLength p = RX_QUEUE_LEN \<and> length (waiting p) \<le> RX_QUEUE_LEN"
  shows "uxLength q = RX_QUEUE_LEN \<and> length (waiting q) \<le> RX_QUEUE_LEN"
  using assms
  by (auto simp: send_message_def xQueueSend_def split: if_splits option.splits prod.splits
      dest!: get_connection_state_queue)

lemma cmd_TX_func_pass_flag:
  "cmd_TX_func_pass a b c s = Some t \<Longrightarrow> module_was_initialized t = module_was_initialized s"
  by (auto simp: cmd_TX_func_pass_def split: option.splits prod.splits)

lemma cmd_TX_func_pass_queue:
  assumes "cmd_TX_func_pass a b c s = Some t" and "cmd_TX_queue t = Some q"
    and "\<forall>p. cmd_TX_queue s = Some p \<longrightarrow> uxLength p = RX_QUEUE_LEN \<and> length (waiting p) \<le> RX_QUEUE_LEN"
  shows "uxLength q = RX_QUEUE_LEN \<and> length (waiting q) \<le> RX_QUEUE_LEN"
  using assms
  by (auto simp: cmd_TX_func_pass_def xQueueReceive_def split: option.splits prod.splits list.splits)

lemma TCP_client_step_flag:
  "TCP_client_step a s = Some t \<Longrightarrow> module_was_initialized s \<Longrightarrow> module_was_initialized t"
  by (cases a)
    (auto simp: de_init_TCP_client_def Let_def
       dest: init_TCP_client_flag send_message_flag cmd_TX_func_pass_flag handle_event_keeps)

lemma TCP_client_run_flag:
  "TCP_client_run h s = Some t \<Longrightarrow> module_was_initialized s \<Longrightarrow> module_was_initialized t"
proof (induction h arbitrary: s)
  case Nil
  then show ?case by simp
next
  case (Cons a h)
  then obtain u where u: "TCP_client_step a s = Some u" and r: "TCP_client_run h u = Some t"
    by (auto split: option.splits)
  show ?case
    using Cons.IH [OF r TCP_client_step_flag [OF u Cons.prems(2)]] .
qed

lemma TCP_client_step_queue:
  assumes "TCP_client_step a s = Some t" and "cmd_TX_queue t = Some q"
    and "\<forall>p. cmd_TX_queue s = Some p \<longrightarrow> uxLength p = RX_QUEUE_LEN \<and> length (waiting p) \<le> RX_QUEUE_LEN"
  shows "uxLength q = RX_QUEUE_LEN \<and> length (waiting q) \<le> RX_QUEUE_LEN"
proof (cases a)
  case (Init qc sc wo evs)
  with assms(1) obtain r where "init_TCP_client qc sc wo evs s = Some (r, t)"
    by auto
  from init_TCP_client_queue [OF this assms(2)] show ?thesis
    by (simp add: xQueueCreate_def)
next
  case (De_init ok)
  with assms show ?thesis
    by (auto simp: de_init_TCP_client_def Let_def split: if_splits)
next
  case (Send c)
  with assms(1) obtain r where "send_message c s = Some (r, t)"
    by auto
  from send_message_queue [OF this assms(2,3)] show ?thesis .
next
  case (Deliver e)
  with assms show ?thesis
    by (auto dest!: handle_event_keeps)
next
  case (TX_pass a b c)
  with assms(1) have "cmd_TX_func_pass a b c s = Some t"
    by simp
  from cmd_TX_func_pass_queue [OF this assms(2,3)] show ?thesis .
qed

lemma TCP_client_run_queue:
  assumes "TCP_client_run h s = Some t" and "cmd_TX_queue t = Some q"
    and "\<forall>p. cmd_TX_queue s = Some p \<longrightarrow> uxLength p = RX_QUEUE_LEN \<and> length (waiting p) \<le> RX_QUEUE_LEN"
  shows "uxLength q = RX_QUEUE_LEN \<and> length (waiting q) \<le> RX_QUEUE_LEN"
  using assms
proof (induction h arbitrary: s)
  case Nil
  then show ?case by simp
next
  case (Cons a h)
  then obtain u where u: "TCP_client_step a s = Some u" and r: "TCP_client_run h u = Some t"
    by (auto split: option.splits)
  have "\<forall>p. cmd_TX_queue u = Some p \<longrightarrow> uxLength p = RX_QUEUE_LEN \<and> length (waiting p) \<le> RX_QUEUE_LEN"
    using TCP_client_step_queue [OF u _ Cons.prems(3)] by blast
  from Cons.IH [OF r Cons.prems(2) this] show ?case .
qed

text \<open>
  The semaphore of the connection state never holds more tokens than its maximum.
\<close>

lemma get_connection_state_semaphore:
  assumes "get_connection_state s = Some (b, t)" and "connection_state_sempahore t = Some y"
    and "\<forall>x. connection_state_sempahore s = Some x \<longrightarrow> uxCount x \<le> uxMaxCount x"
  shows "uxCount y \<le> uxMaxCount y"
  using assms
  by (auto simp: get_connection_state_def xSemaphoreTake_def xSemaphoreGive_def Let_def
      split: option.splits if_splits)

lemma set_connection_state_semaphore:
  assumes "set_connection_state st s = Some (b, t)" and "connection_state_sempahore t = Some y"
    and "\<forall>x. connection_state_sempahore s = Some x \<longrightarrow> uxCount x \<le> uxMaxCount x"
  shows "uxCount y \<le> uxMaxCount y"
  using assms
  by (auto simp: set_connection_state_def xSemaphoreTake_def xSemaphoreGive_def Let_def
      split: option.splits if_splits)

lemma handle_event_semaphore:
  assumes "handle_event e s = Some t" and "connection_state_sempahore t = Some y"
    and "\<forall>x. connection_state_sempahore s = Some x \<longrightarrow> uxCount x \<le> uxMaxCount x"
  shows "uxCount y \<le> uxMaxCount y"
proof (cases e)
  case (WiFi_event w)
  show ?thesis
  proof (cases w)
    case WIFI_EVENT_STA_START
    with WiFi_event assms show ?thesis
      by (auto simp: WiFi_event_handler_def esp_wifi_connect_def)
  next
    case WIFI_EVENT_STA_DISCONNECTED
    with WiFi_event assms(1) obtain b u where u: "set_connection_state False s = Some (b, u)"
      and "connection_state_sempahore t = connection_state_sempahore u"
      by (auto simp: WiFi_event_handler_def esp_wifi_connect_def vTaskDelete_def Let_def
          split: option.splits)
    with set_connection_state_semaphore [OF u _ assms(3)] assms(2) show ?thesis
      by simp
  next
    case WIFI_EVENT_OTHER
    with WiFi_event assms show ?thesis
      by (auto simp: WiFi_event_handler_def)
  qed
next
  case (IP_event created i)
  show ?thesis
  proof (cases i)
    case IP_EVENT_STA_GOT_IP
    with IP_event assms(1) obtain b u where u: "set_connection_state True s = Some (b, u)"
      and "connection_state_sempahore t = connection_state_sempahore u"
      by (auto simp: IP_event_handler_def xTaskCreate_def split: option.splits if_splits)
    with set_connection_state_semaphore [OF u _ assms(3)] assms(2) show ?thesis
      by simp
  next
    case IP_EVENT_OTHER
    with IP_event assms show ?thesis
      by (auto simp: IP_event_handler_def)
  qed
qed

lemma handle_events_semaphore:
  assumes "handle_events es s = Some t" and "connection_state_sempahore t = Some y"
    and "\<forall>x. connection_state_sempahore s = Some x \<longrightarrow> uxCount x \<le> uxMaxCount x"
  shows "uxCount y \<le> uxMaxCount y"
  using assms
proof (induction es arbitrary: s)
  case Nil
  then show ?case by simp
next
  case (Cons e es)
  then obtain u where u: "handle_event e s = Some u" and r: "handle_events es u = Some t"
    by (auto split: option.splits)
  have "\<forall>x. connection_state_sempahore u = Some x \<longrightarrow> uxCount x \<le> uxMaxCount x"
    using handle_event_semaphore [OF u _ Cons.prems(3)] by blast
  from Cons.IH [OF r Cons.prems(2) this] show ?case .
qed

lemma wait_for_connection_semaphore:
  assumes "wait_for_connection evs s = Some t" and "connection_state_sempahore t = Some y"
    and "\<forall>x. connection_state_sempahore s = Some x \<longrightarrow> uxCount x \<le> uxMaxCount x"
  shows "uxCount y \<le> uxMaxCount y"
  using assms
proof (induction evs arbitrary: s)
  case Nil
  then obtain b where "get_connection_state s = Some (b, t)"
    by (auto split: option.splits if_splits)
  from get_connection_state_semaphore [OF this Nil.prems(2,3)] show ?case .
next
  case (Cons during later)
  from Cons.prems(1) obtain b u where g: "get_connection_state s = Some (b, u)"
    by (auto split: option.splits)
  have pu: "\<forall>x. connection_state_sempahore u = Some x \<longrightarrow> uxCount x \<le> uxMaxCount x"
    using get_connection_state_semaphore [OF g _ Cons.prems(3)] by blast
  show ?case
  proof (cases b)
    case True
    with Cons.prems(1) g have "t = u" by simp
    with pu Cons.prems(2) show ?thesis by simp
  next
    case False
    with Cons.prems(1) g obtain v where h: "handle_events during u = Some v"
      and w: "wait_for_connection later v = Some t"
      by (auto split: option.splits)
    have "\<forall>x. connection_state_sempahore v = Some x \<longrightarrow> uxCount x \<le> uxMaxCount x"
      using handle_events_semaphore [OF h _ pu] by blast
    from Cons.IH [OF w Cons.prems(2) this] show ?thesis .
  qed
qed

lemma init_TCP_client_semaphore:
  assumes "init_TCP_client qc sc wo evs s = Some (r, t)" and "connection_state_sempahore t = Some y"
    and "\<forall>x. connection_state_sempahore s = Some x \<longrightarrow> uxCount x \<le> uxMaxCount x"
  shows "uxCount y \<le> uxMaxCount y"
proof (cases "qc \<and> sc \<and> wo")
  case False
  with assms show ?thesis
    by (auto simp: init_TCP_client_def Let_def xSemaphoreCreateCounting_def split: if_splits)
next
  case True
  let ?s3 = "s\<lparr>send_cmd_task_handler := None,
               cmd_TX_queue := Some (xQueueCreate RX_QUEUE_LEN),
               connection_state_sempahore := Some (xSemaphoreCreateCounting 1 1)\<rparr>"
  from True assms(1) obtain u where w: "wait_for_connection evs ?s3 = Some u"
    and t: "t = u\<lparr>module_was_initialized := True\<rparr>"
    by (auto simp: init_TCP_client_def Let_def split: option.splits)
  have "\<forall>x. connection_state_sempahore ?s3 = Some x \<longrightarrow> uxCount x \<le> uxMaxCount x"
    by (simp add: xSemaphoreCreateCounting_def)
  from wait_for_connection_semaphore [OF w _ this] assms(2) t show ?thesis
    by simp
qed

lemma send_message_semaphore:
  assumes "send_message c s = Some (r, t)" and "connection_state_sempahore t = Some y"
    and "\<forall>x. connection_state_sempahore s = Some x \<longrightarrow> uxCount x \<le> uxMaxCount x"
  shows "uxCount y \<le> uxMaxCount y"
proof (cases "module_was_initialized s")
  case False
  with assms show ?thesis
    by (simp add: send_message_def)
next
  case True
  with assms(1) obtain b u where g: "get_connection_state s = Some (b, u)"
    and "connection_state_sempahore t = connection_state_sempahore u"
    by (auto simp: send_message_def split: option.splits if_splits)
  with get_connection_state_semaphore [OF g _ assms(3)] assms(2) show ?thesis
    by simp
qed

lemma TCP_client_step_semaphore:
  assumes "TCP_client_step a s = Some t" and "connection_state_sempahore t = Some y"
    and "\<forall>x. connection_state_sempahore s = Some x \<longrightarrow> uxCount x \<le> uxMaxCount x"
  shows "uxCount y \<le> uxMaxCount y"
proof (cases a)
  case (Init qc sc wo evs)
  with assms(1) obtain r where "init_TCP_client qc sc wo evs s = Some (r, t)"
    by auto
  from init_TCP_client_semaphore [OF this assms(2,3)] show ?thesis .
next
  case (De_init ok)
  with assms show ?thesis
    by (auto simp: de_init_TCP_client_def Let_def split: if_splits)
next
  case (Send c)
  with assms(1) obtain r where "send_message c s = Some (r, t)"
    by auto
  from send_message_semaphore [OF this assms(2,3)] show ?thesis .
next
  case (Deliver e)
  with assms(1) have "handle_event e s = Some t"
    by simp
  from handle_event_semaphore [OF this assms(2,3)] show ?thesis .
next
  case (TX_pass a b c)
  with assms show ?thesis
    by (auto simp: cmd_TX_func_pass_def split: option.splits prod.splits)
qed

lemma TCP_client_run_semaphore:
  assumes "TCP_client_run h s = Some t" and "connection_state_sempahore t = Some y"
    and "\<forall>x. connection_state_sempahore s = Some x \<longrightarrow> uxCount x \<le> uxMaxCount x"
  shows "uxCount y \<le> uxMaxCount y"
  using assms
proof (induction h arbitrary: s)
  case Nil
  then show ?case by simp
next
  case (Cons a h)
  then obtain u where u: "TCP_client_step a s = Some u" and r: "TCP_client_run h u = Some t"
    by (auto split: option.splits)
  have "\<forall>x. connection_state_sempahore u = Some x \<longrightarrow> uxCount x \<le> uxMaxCount x"
    using TCP_client_step_semaphore [OF u _ Cons.prems(3)] by blast
  from Cons.IH [OF r Cons.prems(2) this] show ?case .
qed

lemma reachable_semaphore_within_maximum:
  assumes "TCP_client_run h TCP_client_at_boot = Some t" and "connection_state_sempahore t = Some y"
  shows "uxCount y \<le> uxMaxCount y"
  using TCP_client_run_semaphore [OF assms] by (simp add: TCP_client_at_boot_def)

lemma TCP_client_at_boot_queue:
  "\<forall>p. cmd_TX_queue (TCP_client_at_boot :: 'p TCP_client) = Some p \<longrightarrow>
     uxLength p = RX_QUEUE_LEN \<and> length (waiting p) \<le> RX_QUEUE_LEN"
  by (simp add: TCP_client_at_boot_def)

text \<open>
  C5. In a state reached from boot in which the module is initialised, the read of the
  connection state gives true and the queue exists, the queue has \<open>RX_QUEUE_LEN = 10\<close>
  slots and holds at most that many commands. If every slot is still taken when the wait
  ends, \<open>send_message\<close> returns \<^verbatim>\<open>CORE_TCP_CLIENT_CANT_INSERT_IN_QUEUE_ERR\<close> and the queue is
  unchanged; if there is a free slot it returns \<^verbatim>\<open>CORE_TCP_CLIENT_OK\<close> with the command
  appended behind the waiting ones, and a receive on the new queue takes the oldest
  command first.
\<close>

theorem send_message_queue_insertion:
  assumes "TCP_client_run h TCP_client_at_boot = Some s"
    and "module_was_initialized s"
    and "get_connection_state s = Some (True, t)"
    and "cmd_TX_queue s = Some q"
  shows "uxLength q = RX_QUEUE_LEN \<and> uxLength q = 10 \<and> length (waiting q) \<le> RX_QUEUE_LEN
       \<and> (length (waiting q) = RX_QUEUE_LEN \<longrightarrow>
            send_message c s = Some (CORE_TCP_CLIENT_CANT_INSERT_IN_QUEUE_ERR, t)
          \<and> cmd_TX_queue t = Some q)
       \<and> (length (waiting q) < RX_QUEUE_LEN \<longrightarrow>
            send_message c s
              = Some (CORE_TCP_CLIENT_OK, t\<lparr>cmd_TX_queue := Some (q\<lparr>waiting := waiting q @ [c]\<rparr>)\<rparr>)
          \<and> xQueueReceive (q\<lparr>waiting := waiting q @ [c]\<rparr>)
              = Some (hd (waiting q @ [c]), q\<lparr>waiting := tl (waiting q @ [c])\<rparr>))"
proof -
  have l: "uxLength q = RX_QUEUE_LEN \<and> length (waiting q) \<le> RX_QUEUE_LEN"
    using TCP_client_run_queue [OF assms(1) assms(4) TCP_client_at_boot_queue] .
  have k: "cmd_TX_queue t = Some q"
    using get_connection_state_queue [OF assms(3)] assms(4) by simp
  have full: "length (waiting q) = RX_QUEUE_LEN \<longrightarrow>
      send_message c s = Some (CORE_TCP_CLIENT_CANT_INSERT_IN_QUEUE_ERR, t)"
    using assms(2,3) k l by (simp add: send_message_def xQueueSend_def)
  have room: "length (waiting q) < RX_QUEUE_LEN \<longrightarrow>
      send_message c s
        = Some (CORE_TCP_CLIENT_OK, t\<lparr>cmd_TX_queue := Some (q\<lparr>waiting := waiting q @ [c]\<rparr>)\<rparr>)"
    using assms(2,3) k l by (simp add: send_message_def xQueueSend_def)
  have fifo: "xQueueReceive (q\<lparr>waiting := waiting q @ [c]\<rparr>)
      = Some (hd (waiting q @ [c]), q\<lparr>waiting := tl (waiting q @ [c])\<rparr>)"
    by (cases "waiting q") (simp_all add: xQueueReceive_def)
  have ten: "uxLength q = 10"
    using l by (simp add: RX_QUEUE_LEN_def)
  show ?thesis
    using l ten k full room fifo by blast
qed

theorem send_message_queue_insertion_witness:
  "TCP_client_run
     [Init True True True [[WiFi_event WIFI_EVENT_STA_START], [IP_event True IP_EVENT_STA_GOT_IP]]]
     (TCP_client_at_boot :: unit TCP_client)
   = Some (TCP_client_at_boot\<lparr>send_cmd_task_handler := Some 0,
        cmd_TX_queue := Some \<lparr>uxLength = 10, waiting = []\<rparr>,
        connection_state := True,
        connection_state_sempahore := Some (xSemaphoreCreateCounting 1 1),
        module_was_initialized := True,
        cmd_TX_tasks := [0], tasks_created := 1, wifi_connect_calls := 1\<rparr>)
   \<and> send_message \<lparr>ID = LED_0, action = TOOGLE_LED, pwm = ()\<rparr>
       (TCP_client_at_boot\<lparr>send_cmd_task_handler := Some 0,
        cmd_TX_queue := Some \<lparr>uxLength = 10, waiting = []\<rparr>,
        connection_state := True,
        connection_state_sempahore := Some (xSemaphoreCreateCounting 1 1),
        module_was_initialized := True,
        cmd_TX_tasks := [0], tasks_created := 1, wifi_connect_calls := 1\<rparr>)
     = Some (CORE_TCP_CLIENT_OK,
         TCP_client_at_boot\<lparr>send_cmd_task_handler := Some 0,
        cmd_TX_queue := Some \<lparr>uxLength = 10, waiting = [\<lparr>ID = LED_0, action = TOOGLE_LED, pwm = ()\<rparr>]\<rparr>,
        connection_state := True,
        connection_state_sempahore := Some (xSemaphoreCreateCounting 1 1),
        module_was_initialized := True,
        cmd_TX_tasks := [0], tasks_created := 1, wifi_connect_calls := 1\<rparr>)
   \<and> TCP_client_run
       [Init True True True [[WiFi_event WIFI_EVENT_STA_START], [IP_event True IP_EVENT_STA_GOT_IP]],
         Send \<lparr>ID = LED_0, action = TOOGLE_LED, pwm = ()\<rparr>,
         Send \<lparr>ID = LED_0, action = TOOGLE_LED, pwm = ()\<rparr>,
         Send \<lparr>ID = LED_0, action = TOOGLE_LED, pwm = ()\<rparr>,
         Send \<lparr>ID = LED_0, action = TOOGLE_LED, pwm = ()\<rparr>,
         Send \<lparr>ID = LED_0, action = TOOGLE_LED, pwm = ()\<rparr>,
         Send \<lparr>ID = LED_0, action = TOOGLE_LED, pwm = ()\<rparr>,
         Send \<lparr>ID = LED_0, action = TOOGLE_LED, pwm = ()\<rparr>,
         Send \<lparr>ID = LED_0, action = TOOGLE_LED, pwm = ()\<rparr>,
         Send \<lparr>ID = LED_0, action = TOOGLE_LED, pwm = ()\<rparr>,
         Send \<lparr>ID = LED_0, action = TOOGLE_LED, pwm = ()\<rparr>]
       (TCP_client_at_boot :: unit TCP_client)
     = Some (TCP_client_at_boot\<lparr>send_cmd_task_handler := Some 0,
        cmd_TX_queue := Some \<lparr>uxLength = 10, waiting =
          [\<lparr>ID = LED_0, action = TOOGLE_LED, pwm = ()\<rparr>,
           \<lparr>ID = LED_0, action = TOOGLE_LED, pwm = ()\<rparr>,
           \<lparr>ID = LED_0, action = TOOGLE_LED, pwm = ()\<rparr>,
           \<lparr>ID = LED_0, action = TOOGLE_LED, pwm = ()\<rparr>,
           \<lparr>ID = LED_0, action = TOOGLE_LED, pwm = ()\<rparr>,
           \<lparr>ID = LED_0, action = TOOGLE_LED, pwm = ()\<rparr>,
           \<lparr>ID = LED_0, action = TOOGLE_LED, pwm = ()\<rparr>,
           \<lparr>ID = LED_0, action = TOOGLE_LED, pwm = ()\<rparr>,
           \<lparr>ID = LED_0, action = TOOGLE_LED, pwm = ()\<rparr>,
           \<lparr>ID = LED_0, action = TOOGLE_LED, pwm = ()\<rparr>]\<rparr>,
        connection_state := True,
        connection_state_sempahore := Some (xSemaphoreCreateCounting 1 1),
        module_was_initialized := True,
        cmd_TX_tasks := [0], tasks_created := 1, wifi_connect_calls := 1\<rparr>)
   \<and> send_message \<lparr>ID = LED_0, action = TOOGLE_LED, pwm = ()\<rparr>
       (TCP_client_at_boot\<lparr>send_cmd_task_handler := Some 0,
        cmd_TX_queue := Some \<lparr>uxLength = 10, waiting =
          [\<lparr>ID = LED_0, action = TOOGLE_LED, pwm = ()\<rparr>,
           \<lparr>ID = LED_0, action = TOOGLE_LED, pwm = ()\<rparr>,
           \<lparr>ID = LED_0, action = TOOGLE_LED, pwm = ()\<rparr>,
           \<lparr>ID = LED_0, action = TOOGLE_LED, pwm = ()\<rparr>,
           \<lparr>ID = LED_0, action = TOOGLE_LED, pwm = ()\<rparr>,
           \<lparr>ID = LED_0, action = TOOGLE_LED, pwm = ()\<rparr>,
           \<lparr>ID = LED_0, action = TOOGLE_LED, pwm = ()\<rparr>,
           \<lparr>ID = LED_0, action = TOOGLE_LED, pwm = ()\<rparr>,
           \<lparr>ID = LED_0, action = TOOGLE_LED, pwm = ()\<rparr>,
           \<lparr>ID = LED_0, action = TOOGLE_LED, pwm = ()\<rparr>]\<rparr>,
        connection_state := True,
        connection_state_sempahore := Some (xSemaphoreCreateCounting 1 1),
        module_was_initialized := True,
        cmd_TX_tasks := [0], tasks_created := 1, wifi_connect_calls := 1\<rparr>)
     = Some (CORE_TCP_CLIENT_CANT_INSERT_IN_QUEUE_ERR,
         TCP_client_at_boot\<lparr>send_cmd_task_handler := Some 0,
        cmd_TX_queue := Some \<lparr>uxLength = 10, waiting =
          [\<lparr>ID = LED_0, action = TOOGLE_LED, pwm = ()\<rparr>,
           \<lparr>ID = LED_0, action = TOOGLE_LED, pwm = ()\<rparr>,
           \<lparr>ID = LED_0, action = TOOGLE_LED, pwm = ()\<rparr>,
           \<lparr>ID = LED_0, action = TOOGLE_LED, pwm = ()\<rparr>,
           \<lparr>ID = LED_0, action = TOOGLE_LED, pwm = ()\<rparr>,
           \<lparr>ID = LED_0, action = TOOGLE_LED, pwm = ()\<rparr>,
           \<lparr>ID = LED_0, action = TOOGLE_LED, pwm = ()\<rparr>,
           \<lparr>ID = LED_0, action = TOOGLE_LED, pwm = ()\<rparr>,
           \<lparr>ID = LED_0, action = TOOGLE_LED, pwm = ()\<rparr>,
           \<lparr>ID = LED_0, action = TOOGLE_LED, pwm = ()\<rparr>]\<rparr>,
        connection_state := True,
        connection_state_sempahore := Some (xSemaphoreCreateCounting 1 1),
        module_was_initialized := True,
        cmd_TX_tasks := [0], tasks_created := 1, wifi_connect_calls := 1\<rparr>)"
  (is "TCP_client_run ?first_connection _ = Some ?connected
     \<and> send_message ?c ?connected = Some (_, ?one_waiting)
     \<and> TCP_client_run ?ten_sends _ = Some ?full
     \<and> send_message ?c ?full = Some (_, ?full)")
proof -
  have a: "TCP_client_run ?first_connection TCP_client_at_boot = Some ?connected"
    by (simp add: Let_def TCP_client_defs)
  have b: "TCP_client_run ?ten_sends TCP_client_at_boot = Some ?full"
    by (simp add: Let_def TCP_client_defs)
  have ma: "module_was_initialized ?connected"
    by simp
  have mb: "module_was_initialized ?full"
    by simp
  define empty_queue :: "unit TCP_COMMAND_TYPE queue"
    where "empty_queue = \<lparr>uxLength = 10, waiting = []\<rparr>"
  define full_queue :: "unit TCP_COMMAND_TYPE queue"
    where "full_queue = \<lparr>uxLength = 10, waiting = replicate 10 ?c\<rparr>"
  have qa: "cmd_TX_queue ?connected = Some empty_queue"
    by (simp add: empty_queue_def)
  have qb: "cmd_TX_queue ?full = Some full_queue"
    by (simp add: full_queue_def numeral_eq_Suc)
  have ga: "get_connection_state ?connected = Some (True, ?connected)"
    by (simp add: Let_def TCP_client_defs)
  have gb: "get_connection_state ?full = Some (True, ?full)"
    by (simp add: Let_def TCP_client_defs)
  have la: "length (waiting empty_queue) < 10"
    by (simp add: empty_queue_def)
  have lb: "length (waiting full_queue) = 10"
    by (simp add: full_queue_def)
  have ra: "send_message ?c ?connected = Some (CORE_TCP_CLIENT_OK, ?one_waiting)"
    using la qa
      send_message_queue_insertion [OF a ma ga qa, where c = ?c, unfolded RX_QUEUE_LEN_def]
    by (simp add: empty_queue_def)
  have rb: "send_message ?c ?full = Some (CORE_TCP_CLIENT_CANT_INSERT_IN_QUEUE_ERR, ?full)"
    using lb qb
      send_message_queue_insertion [OF b mb gb qb, where c = ?c, unfolded RX_QUEUE_LEN_def]
    by simp
  show ?thesis
    using a b ra rb by (simp only: simp_thms)
qed

section \<open>The module-initialised flag\<close>

text \<open>
  C9. \<open>de_init_TCP_client\<close> leaves \<^verbatim>\<open>module_was_initialized\<close> as it is. Once
  \<open>init_TCP_client\<close> has returned \<^verbatim>\<open>CORE_TCP_CLIENT_OK\<close> the flag is true, and it is still
  true after every history of calls, events and sending passes that follows, so no later
  \<open>send_message\<close> returns \<^verbatim>\<open>CORE_TCP_CLIENT_MODULE_WAS_NOT_INIT_ERR\<close>.
\<close>

theorem module_initialized_flag_never_cleared:
  assumes "init_TCP_client qc sc wo evs s0 = Some (CORE_TCP_CLIENT_OK, s)"
    and "TCP_client_run h s = Some t"
  shows "module_was_initialized s
       \<and> module_was_initialized (snd (de_init_TCP_client ok x)) = module_was_initialized x
       \<and> module_was_initialized t
       \<and> (\<forall>u. send_message c t \<noteq> Some (CORE_TCP_CLIENT_MODULE_WAS_NOT_INIT_ERR, u))"
proof -
  have a: "module_was_initialized s"
    using init_TCP_client_flag [OF assms(1)] by simp
  have b: "module_was_initialized (snd (de_init_TCP_client ok x)) = module_was_initialized x"
    by (simp add: de_init_TCP_client_def Let_def)
  have d: "module_was_initialized t"
    using TCP_client_run_flag [OF assms(2) a] .
  have e: "\<forall>u. send_message c t \<noteq> Some (CORE_TCP_CLIENT_MODULE_WAS_NOT_INIT_ERR, u)"
    using d by (auto simp: send_message_def split: option.splits prod.splits if_splits)
  show ?thesis
    using a b d e by blast
qed

theorem module_initialized_flag_never_cleared_witness:
  "init_TCP_client True True True
     [[WiFi_event WIFI_EVENT_STA_START], [IP_event True IP_EVENT_STA_GOT_IP]]
     (TCP_client_at_boot :: unit TCP_client)
   = Some (CORE_TCP_CLIENT_OK,
       TCP_client_at_boot\<lparr>send_cmd_task_handler := Some 0,
         cmd_TX_queue := Some (xQueueCreate RX_QUEUE_LEN),
         connection_state := True,
         connection_state_sempahore := Some (xSemaphoreCreateCounting 1 1),
         module_was_initialized := True,
         cmd_TX_tasks := [0], tasks_created := 1, wifi_connect_calls := 1\<rparr>)
   \<and> TCP_client_run [De_init True]
       (TCP_client_at_boot\<lparr>send_cmd_task_handler := Some 0,
         cmd_TX_queue := Some (xQueueCreate RX_QUEUE_LEN),
         connection_state := True,
         connection_state_sempahore := Some (xSemaphoreCreateCounting 1 1),
         module_was_initialized := True,
         cmd_TX_tasks := [0], tasks_created := 1, wifi_connect_calls := 1\<rparr> :: unit TCP_client)
   = Some (TCP_client_at_boot\<lparr>send_cmd_task_handler := Some 0,
         cmd_TX_queue := Some (xQueueCreate RX_QUEUE_LEN),
         connection_state := False,
         connection_state_sempahore := Some (xSemaphoreCreateCounting 1 1),
         module_was_initialized := True,
         cmd_TX_tasks := [0], tasks_created := 1, wifi_connect_calls := 1\<rparr>)
   \<and> module_was_initialized
       (TCP_client_at_boot\<lparr>send_cmd_task_handler := Some 0,
         cmd_TX_queue := Some (xQueueCreate RX_QUEUE_LEN),
         connection_state := False,
         connection_state_sempahore := Some (xSemaphoreCreateCounting 1 1),
         module_was_initialized := True,
         cmd_TX_tasks := [0], tasks_created := 1, wifi_connect_calls := 1\<rparr> :: unit TCP_client)
   \<and> (\<forall>u. send_message \<lparr>ID = LED_0, action = TOOGLE_LED, pwm = ()\<rparr>
       (TCP_client_at_boot\<lparr>send_cmd_task_handler := Some 0,
         cmd_TX_queue := Some (xQueueCreate RX_QUEUE_LEN),
         connection_state := False,
         connection_state_sempahore := Some (xSemaphoreCreateCounting 1 1),
         module_was_initialized := True,
         cmd_TX_tasks := [0], tasks_created := 1, wifi_connect_calls := 1\<rparr>)
       \<noteq> Some (CORE_TCP_CLIENT_MODULE_WAS_NOT_INIT_ERR, u))"
  (is "init_TCP_client _ _ _ ?events _ = Some (_, ?connected)
     \<and> TCP_client_run ?stop _ = Some ?stopped
     \<and> module_was_initialized ?stopped
     \<and> (\<forall>u. send_message ?c ?stopped \<noteq> _ u)")
proof -
  have i: "init_TCP_client True True True ?events TCP_client_at_boot
      = Some (CORE_TCP_CLIENT_OK, ?connected)"
    by (simp add: Let_def TCP_client_defs)
  have r: "TCP_client_run ?stop ?connected = Some ?stopped"
    by (simp add: Let_def TCP_client_defs)
  show ?thesis
    using i r
      module_initialized_flag_never_cleared
        [OF i r, where c = ?c and ok = True and x = "TCP_client_at_boot :: unit TCP_client"]
    by simp
qed

section \<open>The sending task and the connection state\<close>

text \<open>
  With the token free, the address-acquired handler sets the connection state and, when
  the kernel can allocate it, starts a sending task and stores its handle; the link-down
  handler clears the connection state, deletes the task of the stored handle and asks for
  the connection again.
\<close>

lemma address_acquired_starts_task:
  assumes "connection_state_sempahore s = Some (xSemaphoreCreateCounting 1 1)"
  shows "IP_event_handler True IP_EVENT_STA_GOT_IP s
     = Some (s\<lparr>connection_state := True,
               send_cmd_task_handler := Some (tasks_created s),
               cmd_TX_tasks := tasks_created s # cmd_TX_tasks s,
               tasks_created := Suc (tasks_created s)\<rparr>)"
  using assms
  by (simp add: IP_event_handler_def set_connection_state_def xTaskCreate_def
      xSemaphoreTake_def xSemaphoreGive_def xSemaphoreCreateCounting_def)

lemma link_down_deletes_task:
  assumes "connection_state_sempahore s = Some (xSemaphoreCreateCounting 1 1)"
    and "send_cmd_task_handler s = Some handle"
  shows "WiFi_event_handler WIFI_EVENT_STA_DISCONNECTED s
     = Some (s\<lparr>connection_state := False,
               cmd_TX_tasks := removeAll handle (cmd_TX_tasks s),
               wifi_connect_calls := Suc (wifi_connect_calls s)\<rparr>)"
  using assms
  by (simp add: WiFi_event_handler_def set_connection_state_def vTaskDelete_def
      esp_wifi_connect_def xSemaphoreTake_def xSemaphoreGive_def xSemaphoreCreateCounting_def)

text \<open>
  C6. It is not the case that a sending task exists exactly when the connection state is
  true. When \<open>xTaskCreate\<close> fails in the address-acquired handler, the first initialisation returns
  with the connection state true and no sending task; when the address is acquired twice
  before the link goes down, the link-down handler deletes only the second task, and the
  first is alive with the connection state false.
\<close>

theorem worker_and_connection_state_diverge:
  "map_option (\<lambda>s. (module_was_initialized s, connection_state s, cmd_TX_tasks s))
     (TCP_client_run
        [Init True True True
           [[WiFi_event WIFI_EVENT_STA_START], [IP_event False IP_EVENT_STA_GOT_IP]]]
        (TCP_client_at_boot :: unit TCP_client))
     = Some (True, True, [])
   \<and> map_option (\<lambda>s. (module_was_initialized s, connection_state s, cmd_TX_tasks s))
     (TCP_client_run
        [Init True True True
           [[WiFi_event WIFI_EVENT_STA_START], [IP_event True IP_EVENT_STA_GOT_IP]],
         Deliver (IP_event True IP_EVENT_STA_GOT_IP),
         Deliver (WiFi_event WIFI_EVENT_STA_DISCONNECTED)]
        (TCP_client_at_boot :: unit TCP_client))
     = Some (True, False, [0])"
  by (simp add: Let_def TCP_client_defs)

section \<open>The dispatch task\<close>

text \<open>
  C4. A wake with a value of \<^verbatim>\<open>pressed_button\<close> that no case of the switch names is not
  dropped: the switch leaves the command variable as the previous pass left it, and
  \<open>send_message\<close> is called with it all the same. Here the record of an earlier level
  command is queued again and \<^verbatim>\<open>CORE_TCP_CLIENT_OK\<close> is returned.
\<close>

theorem unrecognized_button_is_sent:
  "remote_switch_handler_pass 0
     \<lparr>pressed_button = NUM_OF_BUTTONS,
      button_0_semaphore = \<lparr>uxMaxCount = 1, uxCount = 1\<rparr>,
      handler_cmd = \<lparr>ID = LED_0, action = SET_PWM, pwm = 70 :: 8 word\<rparr>\<rparr>
     (TCP_client_at_boot\<lparr>cmd_TX_queue := Some (xQueueCreate RX_QUEUE_LEN),
        connection_state := True,
        connection_state_sempahore := Some (xSemaphoreCreateCounting 1 1),
        module_was_initialized := True\<rparr>)
   = Some (Some CORE_TCP_CLIENT_OK,
       \<lparr>pressed_button = NUM_OF_BUTTONS,
        button_0_semaphore = \<lparr>uxMaxCount = 1, uxCount = 0\<rparr>,
        handler_cmd = \<lparr>ID = LED_0, action = SET_PWM, pwm = 70\<rparr>\<rparr>,
       TCP_client_at_boot\<lparr>cmd_TX_queue :=
          Some \<lparr>uxLength = 10, waiting = [\<lparr>ID = LED_0, action = SET_PWM, pwm = 70\<rparr>]\<rparr>,
        connection_state := True,
        connection_state_sempahore := Some (xSemaphoreCreateCounting 1 1),
        module_was_initialized := True\<rparr>)"
  by (simp add: remote_switch_handler_pass_def switch_pressed_button_def Let_def TCP_client_defs)

text \<open>
  C10. The \<^verbatim>\<open>BUTTON_0\<close> branch assigns \<^verbatim>\<open>ID\<close> and \<^verbatim>\<open>action\<close> only: the level of the toggle
  command is the level the command variable held before, which is any value at all on
  the first pass and, after a \<^verbatim>\<open>BUTTON_1\<close> pass, the level computed then. When
  \<open>send_message\<close> accepts the command, that record is appended to the queue, and the
  sending task hands the record at the front of the queue to the gateway as it is.
\<close>

theorem toggle_command_level_unset:
  fixes c :: "('w::len) word TCP_COMMAND_TYPE" and rs :: "'w word remote_switch"
  shows "ID (switch_pressed_button BUTTON_0 n c) = LED_0
       \<and> action (switch_pressed_button BUTTON_0 n c) = TOOGLE_LED
       \<and> pwm (switch_pressed_button BUTTON_0 n c) = pwm c
       \<and> pwm (switch_pressed_button BUTTON_0 n (switch_pressed_button BUTTON_1 m c))
           = ucast (duty_cycle_of_presses m)
       \<and> (pressed_button rs = BUTTON_0
            \<and> remote_switch_handler_pass n rs tcp = Some (Some CORE_TCP_CLIENT_OK, rs_after, tcp_after)
          \<longrightarrow> handler_cmd rs_after = (handler_cmd rs)\<lparr>ID := LED_0, action := TOOGLE_LED\<rparr>
            \<and> (\<exists>q qa. cmd_TX_queue tcp = Some q \<and> cmd_TX_queue tcp_after = Some qa
                 \<and> waiting qa = waiting q @ [(handler_cmd rs)\<lparr>ID := LED_0, action := TOOGLE_LED\<rparr>]))
       \<and> (cmd_TX_queue net = Some q \<and> waiting q = x # rest
          \<longrightarrow> cmd_TX_func_pass True True True net
               = Some (net\<lparr>cmd_TX_queue := Some (q\<lparr>waiting := rest\<rparr>),
                          gateway_received := gateway_received net @ [x]\<rparr>))"
proof -
  have a: "switch_pressed_button BUTTON_0 n c = c\<lparr>ID := LED_0, action := TOOGLE_LED\<rparr>" for n
    and c :: "'w word TCP_COMMAND_TYPE"
    by (simp add: switch_pressed_button_def)
  have b: "pwm (switch_pressed_button BUTTON_0 n (switch_pressed_button BUTTON_1 m c))
      = ucast (duty_cycle_of_presses m)"
    by (simp add: a switch_BUTTON_1_pwm)
  have d: "pressed_button rs = BUTTON_0
            \<and> remote_switch_handler_pass n rs tcp = Some (Some CORE_TCP_CLIENT_OK, rs_after, tcp_after)
          \<longrightarrow> handler_cmd rs_after = (handler_cmd rs)\<lparr>ID := LED_0, action := TOOGLE_LED\<rparr>
            \<and> (\<exists>q qa. cmd_TX_queue tcp = Some q \<and> cmd_TX_queue tcp_after = Some qa
                 \<and> waiting qa = waiting q @ [(handler_cmd rs)\<lparr>ID := LED_0, action := TOOGLE_LED\<rparr>])"
    by (auto simp: remote_switch_handler_pass_def a Let_def send_message_def xQueueSend_def
        split: option.splits if_splits prod.splits dest!: get_connection_state_queue)
  have e: "cmd_TX_queue net = Some q \<and> waiting q = x # rest
          \<longrightarrow> cmd_TX_func_pass True True True net
               = Some (net\<lparr>cmd_TX_queue := Some (q\<lparr>waiting := rest\<rparr>),
                          gateway_received := gateway_received net @ [x]\<rparr>)"
    by (simp add: cmd_TX_func_pass_def xQueueReceive_def)
  show ?thesis
    using b d e by (simp add: a)
qed

theorem toggle_command_level_unset_witness:
  "remote_switch_handler_pass 0
     \<lparr>pressed_button = BUTTON_0,
        button_0_semaphore = \<lparr>uxMaxCount = 1, uxCount = 1\<rparr>,
        handler_cmd = \<lparr>ID = NUM_OF_LEDS, action = SET_PWM, pwm = 213 :: 8 word\<rparr>\<rparr>
     (TCP_client_at_boot\<lparr>send_cmd_task_handler := Some 0,
        cmd_TX_queue := Some \<lparr>uxLength = 10, waiting = []\<rparr>,
        connection_state := True,
        connection_state_sempahore := Some (xSemaphoreCreateCounting 1 1),
        module_was_initialized := True,
        cmd_TX_tasks := [0], tasks_created := 1, wifi_connect_calls := 1\<rparr>)
   = Some (Some CORE_TCP_CLIENT_OK,
       \<lparr>pressed_button = BUTTON_0,
        button_0_semaphore = \<lparr>uxMaxCount = 1, uxCount = 0\<rparr>,
        handler_cmd = \<lparr>ID = LED_0, action = TOOGLE_LED, pwm = 213 :: 8 word\<rparr>\<rparr>,
       TCP_client_at_boot\<lparr>send_cmd_task_handler := Some 0,
        cmd_TX_queue := Some \<lparr>uxLength = 10, waiting = [\<lparr>ID = LED_0, action = TOOGLE_LED, pwm = 213 :: 8 word\<rparr>]\<rparr>,
        connection_state := True,
        connection_state_sempahore := Some (xSemaphoreCreateCounting 1 1),
        module_was_initialized := True,
        cmd_TX_tasks := [0], tasks_created := 1, wifi_connect_calls := 1\<rparr>)
   \<and> cmd_TX_func_pass True True True
       (TCP_client_at_boot\<lparr>send_cmd_task_handler := Some 0,
        cmd_TX_queue := Some \<lparr>uxLength = 10, waiting = [\<lparr>ID = LED_0, action = TOOGLE_LED, pwm = 213 :: 8 word\<rparr>]\<rparr>,
        connection_state := True,
        connection_state_sempahore := Some (xSemaphoreCreateCounting 1 1),
        module_was_initialized := True,
        cmd_TX_tasks := [0], tasks_created := 1, wifi_connect_calls := 1\<rparr>)
     = Some (TCP_client_at_boot\<lparr>send_cmd_task_handler := Some 0,
        cmd_TX_queue := Some \<lparr>uxLength = 10, waiting = []\<rparr>,
        connection_state := True,
        connection_state_sempahore := Some (xSemaphoreCreateCounting 1 1),
        module_was_initialized := True,
        cmd_TX_tasks := [0], tasks_created := 1, wifi_connect_calls := 1,
        gateway_received := [\<lparr>ID = LED_0, action = TOOGLE_LED, pwm = 213 :: 8 word\<rparr>]\<rparr>)
   \<and> pwm (switch_pressed_button BUTTON_0 0 \<lparr>ID = NUM_OF_LEDS, action = SET_PWM, pwm = 213 :: 8 word\<rparr>) = 213"
  (is "remote_switch_handler_pass 0 ?rs ?tcp = Some (_, ?rs_after, ?tcp_after)
     \<and> cmd_TX_func_pass True True True ?tcp_after = Some ?delivered
     \<and> pwm (switch_pressed_button BUTTON_0 0 ?c) = 213")
proof -
  let ?sent = "\<lparr>ID = LED_0, action = TOOGLE_LED, pwm = 213 :: 8 word\<rparr>"
  let ?q = "\<lparr>uxLength = 10, waiting = [?sent]\<rparr>"
  have h: "remote_switch_handler_pass 0 ?rs ?tcp
      = Some (Some CORE_TCP_CLIENT_OK, ?rs_after, ?tcp_after)"
    by (simp add: remote_switch_handler_pass_def switch_pressed_button_def Let_def TCP_client_defs)
  have q: "cmd_TX_queue ?tcp_after = Some ?q"
    by simp
  have w: "waiting ?q = ?sent # []"
    by simp
  have p: "pressed_button ?rs = BUTTON_0"
    by simp
  note t = toggle_command_level_unset
    [where c = ?c and n = 0 and rs = ?rs and tcp = ?tcp and rs_after = ?rs_after
       and tcp_after = ?tcp_after and net = ?tcp_after and q = ?q and x = ?sent and rest = "[]"]
  have "cmd_TX_func_pass True True True ?tcp_after = Some ?delivered"
    using t q w by (simp add: TCP_client_at_boot_def)
  moreover have "pwm (switch_pressed_button BUTTON_0 0 ?c) = 213"
    using t by simp
  ultimately show ?thesis
    using h by (simp only: simp_thms)
qed

end
